theory Spec2Isabelle
  imports Complex_Main
begin

section \<open>Numbers, errors and data frames\<close>

text \<open>
  The pages compute on IEEE double values (numpy \<open>float64\<close> scalars and pandas columns).
  They are embedded as exact reals extended by the three special values: arithmetic on
  finite values is exact (rounding, overflow and the sign of zero are not represented),
  and the special values follow IEEE: a division by zero yields an infinity or \<open>NaN\<close>
  and does not raise, \<open>NaN\<close> propagates, comparisons with \<open>NaN\<close> are false.
\<close>

datatype fl = Fin real | PInf | NInf | NaN

datatype py_error = ValueError | KeyError | IndexError | ZeroDivisionError | MissingDataError

fun is_finite :: "fl \<Rightarrow> bool" where
  "is_finite (Fin x) = True"
| "is_finite PInf = False"
| "is_finite NInf = False"
| "is_finite NaN = False"

fun fneg :: "fl \<Rightarrow> fl" where
  "fneg (Fin x) = Fin (- x)"
| "fneg PInf = NInf"
| "fneg NInf = PInf"
| "fneg NaN = NaN"

fun fadd :: "fl \<Rightarrow> fl \<Rightarrow> fl" where
  "fadd (Fin a) (Fin b) = Fin (a + b)"
| "fadd (Fin a) PInf = PInf"
| "fadd (Fin a) NInf = NInf"
| "fadd (Fin a) NaN = NaN"
| "fadd PInf (Fin b) = PInf"
| "fadd PInf PInf = PInf"
| "fadd PInf NInf = NaN"
| "fadd PInf NaN = NaN"
| "fadd NInf (Fin b) = NInf"
| "fadd NInf PInf = NaN"
| "fadd NInf NInf = NInf"
| "fadd NInf NaN = NaN"
| "fadd NaN y = NaN"

definition fsub :: "fl \<Rightarrow> fl \<Rightarrow> fl" where
  "fsub a b = fadd a (fneg b)"

fun fmul :: "fl \<Rightarrow> fl \<Rightarrow> fl" where
  "fmul (Fin a) (Fin b) = Fin (a * b)"
| "fmul (Fin a) PInf = (if a = 0 then NaN else if 0 < a then PInf else NInf)"
| "fmul (Fin a) NInf = (if a = 0 then NaN else if 0 < a then NInf else PInf)"
| "fmul (Fin a) NaN = NaN"
| "fmul PInf (Fin b) = (if b = 0 then NaN else if 0 < b then PInf else NInf)"
| "fmul PInf PInf = PInf"
| "fmul PInf NInf = NInf"
| "fmul PInf NaN = NaN"
| "fmul NInf (Fin b) = (if b = 0 then NaN else if 0 < b then NInf else PInf)"
| "fmul NInf PInf = NInf"
| "fmul NInf NInf = PInf"
| "fmul NInf NaN = NaN"
| "fmul NaN y = NaN"

fun fdiv :: "fl \<Rightarrow> fl \<Rightarrow> fl" where
  "fdiv (Fin a) (Fin b) =
     (if b = 0 then (if a = 0 then NaN else if 0 < a then PInf else NInf) else Fin (a / b))"
| "fdiv (Fin a) PInf = Fin 0"
| "fdiv (Fin a) NInf = Fin 0"
| "fdiv (Fin a) NaN = NaN"
| "fdiv PInf (Fin b) = (if b < 0 then NInf else PInf)"
| "fdiv PInf PInf = NaN"
| "fdiv PInf NInf = NaN"
| "fdiv PInf NaN = NaN"
| "fdiv NInf (Fin b) = (if b < 0 then PInf else NInf)"
| "fdiv NInf PInf = NaN"
| "fdiv NInf NInf = NaN"
| "fdiv NInf NaN = NaN"
| "fdiv NaN y = NaN"

text \<open>\<open>x ** n\<close> for a non-negative integer exponent, as repeated multiplication.\<close>

primrec fpow :: "fl \<Rightarrow> nat \<Rightarrow> fl" where
  "fpow x 0 = Fin 1"
| "fpow x (Suc n) = fmul x (fpow x n)"


primrec fsum :: "fl list \<Rightarrow> fl" where
  "fsum [] = Fin 0"
| "fsum (x # xs) = fadd x (fsum xs)"

text \<open>\<open>Series.sum()\<close>: pandas skips \<open>NaN\<close> entries (\<open>skipna=True\<close>); the empty sum is 0.\<close>

definition pd_sum :: "fl list \<Rightarrow> fl" where
  "pd_sum xs = fsum (filter (\<lambda>x. x \<noteq> NaN) xs)"

text \<open>
  \<open>Series.cumprod()\<close>: the running product; a \<open>NaN\<close> entry stays \<open>NaN\<close> and is left
  out of the running product (\<open>skipna=True\<close>).
\<close>

fun cumprod_from :: "fl \<Rightarrow> fl list \<Rightarrow> fl list" where
  "cumprod_from acc [] = []"
| "cumprod_from acc (x # xs) =
     (if x = NaN then NaN # cumprod_from acc xs
      else fmul acc x # cumprod_from (fmul acc x) xs)"

definition cumprod :: "fl list \<Rightarrow> fl list" where
  "cumprod xs = cumprod_from (Fin 1) xs"

text \<open>
  A \<open>DataFrame\<close> whose rows are reporting periods: the column labels in order, and one
  row per period end-date holding the value of every column. A \<open>Series\<close> is a list of
  dated values. The embedding covers frames whose period end-dates are distinct (a unique
  index); label lookups take the first row of a date.
\<close>

type_synonym date = nat
type_synonym row = "string \<Rightarrow> fl"
type_synonym series = "(date \<times> fl) list"

record frame =
  columns :: "string list"
  rows :: "(date \<times> row) list"

definition col_values :: "frame \<Rightarrow> string \<Rightarrow> fl list" where
  "col_values df c = map (\<lambda>(d, r). r c) (rows df)"

text \<open>\<open>df[c]\<close> raises \<open>KeyError\<close> for a label that is not a column.\<close>

definition getitem :: "frame \<Rightarrow> string \<Rightarrow> py_error + fl list" where
  "getitem df c = (if c \<in> set (columns df) then Inr (col_values df c) else Inl KeyError)"

text \<open>\<open>df[c] = values\<close> for values in row order (one per row): the column is replaced, or
  appended when the label is new.\<close>

definition set_col :: "string \<Rightarrow> fl list \<Rightarrow> frame \<Rightarrow> frame" where
  "set_col c vs df =
     \<lparr>columns = (if c \<in> set (columns df) then columns df else columns df @ [c]),
      rows = map2 (\<lambda>(d, r) v. (d, r(c := v))) (rows df) vs\<rparr>"

definition iloc_last :: "'a list \<Rightarrow> py_error + 'a" where
  "iloc_last xs = (if xs = [] then Inl IndexError else Inr (last xs))"

section \<open>DCF model page\<close>

text \<open>
  \<open>get_ltm_data\<close>: the quarterly income statement (transposed, one row per quarter) is
  sorted by date, cut to its last four rows, and the \<open>Total Revenue\<close> column summed. Any
  exception inside is caught and the all-\<open>None\<close> tuple returned, here \<open>None\<close>. The
  provider's \<open>info\<close> dictionary is a map; \<open>info.get(k, 0)\<close> defaults to 0.
\<close>

definition info_get :: "(string \<rightharpoonup> fl) \<Rightarrow> string \<Rightarrow> fl" where
  "info_get info k = (case info k of None \<Rightarrow> Fin 0 | Some v \<Rightarrow> v)"

definition sort_index :: "frame \<Rightarrow> frame" where
  "sort_index df = df\<lparr>rows := sort_key fst (rows df)\<rparr>"

definition iloc_last4 :: "frame \<Rightarrow> frame" where
  "iloc_last4 df = df\<lparr>rows := drop (length (rows df) - 4) (rows df)\<rparr>"

definition get_ltm_data :: "frame \<Rightarrow> (string \<rightharpoonup> fl) \<Rightarrow> (fl \<times> date \<times> fl) option" where
  "get_ltm_data quarterly_income_stmt info =
     (let ltm_data = iloc_last4 (sort_index quarterly_income_stmt) in
      case getitem ltm_data ''Total Revenue'' of
        Inl e \<Rightarrow> None
      | Inr revenue \<Rightarrow>
          (let ltm_revenue = pd_sum revenue in
           case iloc_last (map fst (rows ltm_data)) of
             Inl e \<Rightarrow> None
           | Inr most_recent_date \<Rightarrow>
               Some (ltm_revenue, most_recent_date, info_get info ''sharesOutstanding'')))"

text \<open>
  \<open>project_financials\<close>: the frame constructor repeats a list of one value over the index
  and raises \<open>ValueError\<close> for any other list whose length differs from the number of
  projection dates.
\<close>

definition maybe_repeat :: "fl list \<Rightarrow> nat \<Rightarrow> fl list" where
  "maybe_repeat vs n = (case vs of [v] \<Rightarrow> replicate n v | _ \<Rightarrow> vs)"

definition assumption_frame :: "date list \<Rightarrow> fl list \<Rightarrow> fl list \<Rightarrow> fl list \<Rightarrow> py_error + frame" where
  "assumption_frame projection_dates growth_pattern ebit_margin_pattern reinv_rate_pattern =
     (let n = length projection_dates;
          growth = maybe_repeat growth_pattern n;
          ebit_margin = maybe_repeat ebit_margin_pattern n;
          reinv_rate = maybe_repeat reinv_rate_pattern n
      in if length growth = n \<and> length ebit_margin = n \<and> length reinv_rate = n
         then Inr \<lparr>columns = [''Revenue Growth'', ''EBIT Margin'', ''Reinv Rate''],
                 rows = map (\<lambda>(d, g, m, r).
                           (d, (\<lambda>c. NaN)(''Revenue Growth'' := g, ''EBIT Margin'' := m,
                                           ''Reinv Rate'' := r)))
                         (zip projection_dates (zip growth (zip ebit_margin reinv_rate)))\<rparr>
         else Inl ValueError)"

definition project_financials ::
  "fl \<Rightarrow> fl list \<Rightarrow> fl list \<Rightarrow> fl list \<Rightarrow> fl \<Rightarrow> date list \<Rightarrow> py_error + frame" where
  "project_financials ltm_revenue growth_pattern ebit_margin_pattern reinv_rate_pattern
       tax_rate projection_dates =
     (case assumption_frame projection_dates growth_pattern ebit_margin_pattern
             reinv_rate_pattern of
        Inl e \<Rightarrow> Inl e
      | Inr projection \<Rightarrow>
         (let projection = set_col ''Revenue''
                (map (fmul ltm_revenue)
                   (cumprod (map (fadd (Fin 1)) (col_values projection ''Revenue Growth''))))
                projection;
              projection = set_col ''EBIT''
                (map2 fmul (col_values projection ''Revenue'')
                   (col_values projection ''EBIT Margin''))
                projection;
              projection = set_col ''NOPAT''
                (map (\<lambda>e. fmul e (fsub (Fin 1) tax_rate)) (col_values projection ''EBIT''))
                projection;
              projection = set_col ''FCF''
                (map2 (\<lambda>n r. fmul n (fsub (Fin 1) r))
                   (col_values projection ''NOPAT'') (col_values projection ''Reinv Rate''))
                projection
          in Inr projection))"

text \<open>
  The discounting step shared by \<open>discount_cash_flows\<close> and the sensitivity loop:
  \<open>FCF / (1 + wacc) ** periods\<close> with \<open>periods = 1, 2, ..., len\<close>.
\<close>

definition discounted :: "fl list \<Rightarrow> fl \<Rightarrow> fl list" where
  "discounted fcf wacc =
     map2 (\<lambda>f t. fdiv f (fpow (fadd (Fin 1) wacc) t)) fcf [1 ..< length fcf + 1]"

text \<open>
  \<open>discount_cash_flows\<close> writes the new column into the frame it was given and returns
  that same frame: the result is at once the returned value and the caller's frame after
  the call.
\<close>

definition discount_cash_flows :: "frame \<Rightarrow> fl \<Rightarrow> py_error + frame" where
  "discount_cash_flows projection wacc =
     (case getitem projection ''FCF'' of
        Inl e \<Rightarrow> Inl e
      | Inr fcf \<Rightarrow> Inr (set_col ''Discounted FCF'' (discounted fcf wacc) projection))"

text \<open>
  \<open>calculate_terminal_value\<close>: at its call sites \<open>final_fcf\<close> is a numpy scalar, so the
  divisions follow IEEE semantics.
\<close>

definition calculate_terminal_value :: "fl \<Rightarrow> fl \<Rightarrow> fl \<Rightarrow> nat \<Rightarrow> fl \<times> fl" where
  "calculate_terminal_value final_fcf wacc terminal_growth num_periods =
     (let terminal_value =
            fdiv (fmul final_fcf (fadd (Fin 1) terminal_growth)) (fsub wacc terminal_growth);
          pv_terminal = fdiv terminal_value (fpow (fadd (Fin 1) wacc) num_periods)
      in (terminal_value, pv_terminal))"

definition calculate_share_price :: "fl \<Rightarrow> fl \<Rightarrow> fl \<Rightarrow> fl \<Rightarrow> fl \<Rightarrow> fl \<times> fl \<times> fl" where
  "calculate_share_price pv_fcf_sum pv_terminal total_debt total_cash shares_outstanding =
     (let firm_value = fadd pv_fcf_sum pv_terminal;
          equity_value = fadd (fsub firm_value total_debt) total_cash;
          share_price = fdiv equity_value shares_outstanding
      in (firm_value, equity_value, share_price))"

text \<open>
  The sensitivity loop of the page: for each WACC value a copy of the projection gets its
  own discounted column; \<open>final_fcf\<close> is the value read once before the loop.
\<close>

definition sensitivity_price :: "frame \<Rightarrow> fl \<Rightarrow> fl \<Rightarrow> fl \<Rightarrow> fl \<Rightarrow> fl \<Rightarrow> fl \<Rightarrow> py_error + fl" where
  "sensitivity_price projection final_fcf terminal_growth total_debt total_cash
       shares_outstanding current_wacc =
     (case getitem projection ''FCF'' of
        Inl e \<Rightarrow> Inl e
      | Inr fcf \<Rightarrow>
          (let current_projection = set_col ''Discounted FCF'' (discounted fcf current_wacc) projection;
               (tv, current_pv_terminal) =
                  calculate_terminal_value final_fcf current_wacc terminal_growth
                    (length (rows current_projection));
               (fv, ev, current_share_price) =
                  calculate_share_price (pd_sum (col_values current_projection ''Discounted FCF''))
                    current_pv_terminal total_debt total_cash shares_outstanding
           in Inr current_share_price))"

fun collect :: "('e + 'a) list \<Rightarrow> 'e + 'a list" where
  "collect [] = Inr []"
| "collect (Inl e # xs) = Inl e"
| "collect (Inr v # xs) = (case collect xs of Inl e \<Rightarrow> Inl e | Inr vs \<Rightarrow> Inr (v # vs))"

definition sensitivity ::
  "frame \<Rightarrow> fl \<Rightarrow> fl \<Rightarrow> fl \<Rightarrow> fl \<Rightarrow> fl \<Rightarrow> fl \<Rightarrow> fl \<Rightarrow> fl \<Rightarrow> py_error + fl list" where
  "sensitivity projection final_fcf wacc_lower wacc wacc_upper terminal_growth total_debt
       total_cash shares_outstanding =
     collect (map (sensitivity_price projection final_fcf terminal_growth total_debt total_cash
                     shares_outstanding)
                [wacc_lower, wacc, wacc_upper])"

text \<open>
  Advanced mode of the sidebar: each text area is split at commas, every piece converted
  by \<open>float(x.strip()) / 100\<close>, the list cut to \<open>num_years\<close> entries and then padded.
  Python's \<open>float\<close> on a string is a parameter \<open>float_of\<close> (\<open>None\<close> where it raises
  \<open>ValueError\<close>). Any exception replaces all three patterns by the defaults and writes
  one error message to the sidebar; the messages written are part of the result.
\<close>

text \<open>
  A Python string is the list of its code points, for code points below 256. The
  characters that \<open>str.strip\<close> removes are those that \<open>str.isspace\<close> accepts: in this
  range the ASCII white space, the four separators \<open>0x1C\<close> to \<open>0x1F\<close>, the next-line
  character \<open>0x85\<close> and the no-break space \<open>0xA0\<close>.
\<close>

definition is_space :: "char \<Rightarrow> bool" where
  "is_space c = (c \<in> set [CHR '' '', CHR 0x09, CHR 0x0A, CHR 0x0B, CHR 0x0C, CHR 0x0D,
                            CHR 0x1C, CHR 0x1D, CHR 0x1E, CHR 0x1F, CHR 0x85, CHR 0xA0])"

definition strip :: "string \<Rightarrow> string" where
  "strip s = rev (dropWhile is_space (rev (dropWhile is_space s)))"

fun split_comma :: "string \<Rightarrow> string list" where
  "split_comma [] = [[]]"
| "split_comma (c # cs) =
     (if c = CHR '','' then [] # split_comma cs
      else (case split_comma cs of [] \<Rightarrow> [[c]] | w # ws \<Rightarrow> (c # w) # ws))"

definition parse_pattern :: "(string \<Rightarrow> fl option) \<Rightarrow> string \<Rightarrow> nat \<Rightarrow> py_error + fl list" where
  "parse_pattern float_of input num_years =
     (case those (map (\<lambda>x. float_of (strip x)) (split_comma input)) of
        None \<Rightarrow> Inl ValueError
      | Some vs \<Rightarrow> Inr (take num_years (map (\<lambda>v. fdiv v (Fin 100)) vs)))"

function pad_with_last :: "'a \<Rightarrow> nat \<Rightarrow> 'a list \<Rightarrow> 'a list" where
  "pad_with_last dflt num_years pattern =
     (if length pattern < num_years
      then pad_with_last dflt num_years (pattern @ [if pattern \<noteq> [] then last pattern else dflt])
      else pattern)"
  by pat_completeness auto
termination
  by (relation "measure (\<lambda>(dflt, num_years, pattern). num_years - length pattern)") auto

declare pad_with_last.simps [simp del]

record patterns =
  growth_pattern_of :: "fl list"
  ebit_margin_pattern_of :: "fl list"
  reinv_rate_pattern_of :: "fl list"
  sidebar_errors :: "string list"

definition default_patterns :: "nat \<Rightarrow> patterns" where
  "default_patterns num_years =
     \<lparr>growth_pattern_of = replicate num_years (Fin 0.15),
      ebit_margin_pattern_of = replicate num_years (Fin 0.46),
      reinv_rate_pattern_of = replicate num_years (Fin 0.20),
      sidebar_errors = [''Invalid input format. Using defaults.'']\<rparr>"

definition advanced_mode ::
  "(string \<Rightarrow> fl option) \<Rightarrow> string \<Rightarrow> string \<Rightarrow> string \<Rightarrow> nat \<Rightarrow> patterns" where
  "advanced_mode float_of growth_input ebit_input reinv_input num_years =
     (case parse_pattern float_of growth_input num_years of
        Inl e \<Rightarrow> default_patterns num_years
      | Inr growth_pattern \<Rightarrow>
     (case parse_pattern float_of ebit_input num_years of
        Inl e \<Rightarrow> default_patterns num_years
      | Inr ebit_margin_pattern \<Rightarrow>
     (case parse_pattern float_of reinv_input num_years of
        Inl e \<Rightarrow> default_patterns num_years
      | Inr reinv_rate_pattern \<Rightarrow>
          \<lparr>growth_pattern_of = pad_with_last (Fin 0.06) num_years growth_pattern,
           ebit_margin_pattern_of = pad_with_last (Fin 0.46) num_years ebit_margin_pattern,
           reinv_rate_pattern_of = pad_with_last (Fin 0.20) num_years reinv_rate_pattern,
           sidebar_errors = []\<rparr>)))"

text \<open>
  For worked examples: \<open>float\<close> on a non-empty string of decimal digits. It agrees with
  Python on exactly those strings and is not used for any other.
\<close>

definition is_digit :: "char \<Rightarrow> bool" where
  "is_digit c = (48 \<le> (of_char c :: nat) \<and> (of_char c :: nat) \<le> 57)"

definition float_of_digits :: "string \<Rightarrow> fl option" where
  "float_of_digits s =
     (if s \<noteq> [] \<and> list_all is_digit s
      then Some (Fin (real (foldl (\<lambda>a c. 10 * a + (of_char c - 48)) 0 s)))
      else None)"

section \<open>WACC calculator page\<close>

record spread_entry =
  GreaterThan :: real
  LessThan :: real
  Rating :: string
  Spread :: real

definition credit_spreads :: "spread_entry list" where
  "credit_spreads =
    [\<lparr>GreaterThan = - 100000, LessThan = 0.199999, Rating = ''D2/D'', Spread = 19.00\<rparr>,
     \<lparr>GreaterThan = 0.2, LessThan = 0.649999, Rating = ''C2/C'', Spread = 15.50\<rparr>,
     \<lparr>GreaterThan = 0.65, LessThan = 0.799999, Rating = ''Ca2/CC'', Spread = 10.10\<rparr>,
     \<lparr>GreaterThan = 0.8, LessThan = 1.249999, Rating = ''Caa/CCC'', Spread = 7.28\<rparr>,
     \<lparr>GreaterThan = 1.25, LessThan = 1.499999, Rating = ''B3/B-'', Spread = 4.42\<rparr>,
     \<lparr>GreaterThan = 1.5, LessThan = 1.749999, Rating = ''B2/B'', Spread = 3.00\<rparr>,
     \<lparr>GreaterThan = 1.75, LessThan = 1.999999, Rating = ''B1/B+'', Spread = 2.61\<rparr>,
     \<lparr>GreaterThan = 2.0, LessThan = 2.2499999, Rating = ''Ba2/BB'', Spread = 1.83\<rparr>,
     \<lparr>GreaterThan = 2.25, LessThan = 2.49999, Rating = ''Ba1/BB+'', Spread = 1.55\<rparr>,
     \<lparr>GreaterThan = 2.5, LessThan = 2.999999, Rating = ''Baa2/BBB'', Spread = 1.20\<rparr>,
     \<lparr>GreaterThan = 3.0, LessThan = 4.249999, Rating = ''A3/A-'', Spread = 0.95\<rparr>,
     \<lparr>GreaterThan = 4.25, LessThan = 5.499999, Rating = ''A2/A'', Spread = 0.85\<rparr>,
     \<lparr>GreaterThan = 5.5, LessThan = 6.499999, Rating = ''A1/A+'', Spread = 0.77\<rparr>,
     \<lparr>GreaterThan = 6.5, LessThan = 8.499999, Rating = ''Aa2/AA'', Spread = 0.60\<rparr>,
     \<lparr>GreaterThan = 8.5, LessThan = 100000, Rating = ''Aaa/AAA'', Spread = 0.45\<rparr>]"

text \<open>
  \<open>str.lower\<close> on code points below 256: the capital letters are \<open>A\<close> to \<open>Z\<close> and the
  accented capitals \<open>0xC0\<close> to \<open>0xDE\<close> without the multiplication sign \<open>0xD7\<close>; each
  has its small letter 32 places further on.
\<close>

definition lower_char :: "char \<Rightarrow> char" where
  "lower_char c =
     (if (65 \<le> (of_char c :: nat) \<and> (of_char c :: nat) \<le> 90)
         \<or> (192 \<le> (of_char c :: nat) \<and> (of_char c :: nat) \<le> 214)
         \<or> (216 \<le> (of_char c :: nat) \<and> (of_char c :: nat) \<le> 222)
      then char_of ((of_char c :: nat) + 32) else c)"

definition lower :: "string \<Rightarrow> string" where
  "lower s = map lower_char s"

text \<open>
  \<open>get_credit_spread\<close> returns the spread as a decimal, or \<open>NaN\<close> after an
  \<open>st.warning\<close>; the warnings written are the second component.
\<close>

fun get_credit_spread :: "string \<Rightarrow> spread_entry list \<Rightarrow> fl \<times> string list" where
  "get_credit_spread rating [] = (NaN, [''Warning: No spread found for rating '' @ rating])"
| "get_credit_spread rating (entry # rest) =
     (if lower (strip (Rating entry)) = lower (strip rating)
      then (Fin (Spread entry / 100), [])
      else get_credit_spread rating rest)"

definition cost_of_debt :: "fl \<Rightarrow> string \<Rightarrow> spread_entry list \<Rightarrow> fl" where
  "cost_of_debt rf firm_rating table = fadd rf (fst (get_credit_spread firm_rating table))"

text \<open>
  The WACC results of the page: the point estimate and the two values for the ends of
  beta's confidence interval, from the weights, the rates, the three betas and the cost
  of debt \<open>kd\<close> computed before.
\<close>

record wacc_results =
  wacc_lower_ci :: fl
  wacc_estimate :: fl
  wacc_upper_ci :: fl

definition wacc_estimates :: "fl \<Rightarrow> fl \<Rightarrow> fl \<Rightarrow> fl \<Rightarrow> fl \<Rightarrow> fl \<Rightarrow> fl \<Rightarrow> fl \<Rightarrow> fl \<Rightarrow> wacc_results" where
  "wacc_estimates w_E w_D rf emrp marg_tax_rate beta beta_lower_ci beta_upper_ci kd =
     (let cost_of_equity = fadd rf (fmul beta emrp);
          wacc = fadd (fmul w_E cost_of_equity) (fmul (fmul w_D kd) (fsub (Fin 1) marg_tax_rate));
          cost_of_equity_lower_ci = fadd rf (fmul beta_lower_ci emrp);
          cost_of_equity_upper_ci = fadd rf (fmul beta_upper_ci emrp);
          lower_ci = fadd (fmul w_E cost_of_equity_lower_ci)
                          (fmul (fmul w_D kd) (fsub (Fin 1) marg_tax_rate));
          upper_ci = fadd (fmul w_E cost_of_equity_upper_ci)
                          (fmul (fmul w_D kd) (fsub (Fin 1) marg_tax_rate))
      in \<lparr>wacc_lower_ci = lower_ci, wacc_estimate = wacc, wacc_upper_ci = upper_ci\<rparr>)"

text \<open>
  \<open>calculate_beta\<close>. Prices are finite numbers. \<open>pct_change\<close> leaves the first period
  undefined and \<open>dropna\<close> removes the undefined periods.
\<close>

definition pct_change :: "(date \<times> real) list \<Rightarrow> series" where
  "pct_change s =
     (case s of
        [] \<Rightarrow> []
      | (d, p) # rest \<Rightarrow>
          (d, NaN) # map2 (\<lambda>(d0, p0) (d1, p1). (d1, fsub (fdiv (Fin p1) (Fin p0)) (Fin 1))) s rest)"

definition dropna :: "series \<Rightarrow> series" where
  "dropna s = filter (\<lambda>(d, v). v \<noteq> NaN) s"

definition excess_returns :: "(date \<times> real) list \<Rightarrow> fl \<Rightarrow> series" where
  "excess_returns data rf = map (\<lambda>(d, v). (d, fsub v rf)) (dropna (pct_change data))"

text \<open>
  The regression library, as far as the page uses it. \<open>add_constant\<close> puts a column of
  ones before the regressor unless the regressor is itself a non-zero constant column, in
  which case it is returned unchanged. The fit refuses an empty sample, non-finite
  regressor values and samples whose dates differ, and otherwise returns the
  least-squares coefficients \<open>pinv(X) y\<close> (the minimum-norm solution when the regressor
  does not vary); the coefficient of the regressor is the second one when the constant
  was added.
\<close>

datatype design = Regressor_only series | Const_and_regressor series

definition real_of :: "fl \<Rightarrow> real" where
  "real_of v = (case v of Fin x \<Rightarrow> x | _ \<Rightarrow> 0)"

definition is_nonzero_constant :: "fl list \<Rightarrow> bool" where
  "is_nonzero_constant vs =
     (vs \<noteq> [] \<and> list_all is_finite vs \<and> list_all (\<lambda>v. v = hd vs) vs \<and> hd vs \<noteq> Fin 0)"

definition add_constant :: "series \<Rightarrow> design" where
  "add_constant x =
     (if is_nonzero_constant (map snd x) then Regressor_only x else Const_and_regressor x)"

definition regressor :: "design \<Rightarrow> series" where
  "regressor X = (case X of Regressor_only x \<Rightarrow> x | Const_and_regressor x \<Rightarrow> x)"

definition dot :: "real list \<Rightarrow> fl list \<Rightarrow> fl" where
  "dot ws ys = fsum (map2 (\<lambda>w y. fmul (Fin w) y) ws ys)"

definition pinv_rows :: "design \<Rightarrow> real list list" where
  "pinv_rows X =
     (let xs = map (real_of \<circ> snd) (regressor X);
          n = real (length xs);
          mean = sum_list xs / n;
          sxx = sum_list (map (\<lambda>x. (x - mean)\<^sup>2) xs)
      in case X of
           Regressor_only x \<Rightarrow> [map (\<lambda>x. x / sum_list (map (\<lambda>x. x\<^sup>2) xs)) xs]
         | Const_and_regressor x \<Rightarrow>
             (if sxx = 0
              then [map (\<lambda>x. 1 / (n * (1 + mean\<^sup>2))) xs, map (\<lambda>x. mean / (n * (1 + mean\<^sup>2))) xs]
              else [map (\<lambda>x. 1 / n - mean * ((x - mean) / sxx)) xs,
                    map (\<lambda>x. (x - mean) / sxx) xs]))"

definition OLS_fit :: "series \<Rightarrow> design \<Rightarrow> py_error + fl list" where
  "OLS_fit endog X =
     (if regressor X = [] then Inl ValueError
      else if list_ex (\<lambda>(d, v). \<not> is_finite v) (regressor X) then Inl MissingDataError
      else if map fst endog = map fst (regressor X)
      then Inr (map (\<lambda>ws. dot ws (map snd endog)) (pinv_rows X))
      else Inl ValueError)"

text \<open>
  The value returned is \<open>(beta, results, stock_returns, index_returns)\<close>; of \<open>results\<close>
  the coefficients are kept. \<open>results.params.iloc[1]\<close> raises \<open>IndexError\<close> when the
  fit has a single coefficient.
\<close>

definition calculate_beta ::
  "(date \<times> real) list \<Rightarrow> (date \<times> real) list \<Rightarrow> fl \<Rightarrow> py_error + (fl \<times> fl list \<times> series \<times> series)" where
  "calculate_beta stock_data index_data rf =
     (let stock_returns = excess_returns stock_data rf;
          index_returns = excess_returns index_data rf;
          X = add_constant index_returns
      in case OLS_fit stock_returns X of
           Inl e \<Rightarrow> Inl e
         | Inr params \<Rightarrow>
             (if length params \<le> 1 then Inl IndexError
              else Inr (params ! 1, params, stock_returns, index_returns)))"

section \<open>Historical analysis page\<close>

text \<open>\<open>df[c] = f(columns of df)\<close>, computed row by row.\<close>

definition assign :: "string \<Rightarrow> (row \<Rightarrow> fl) \<Rightarrow> frame \<Rightarrow> frame" where
  "assign c f df = set_col c (map (\<lambda>(d, r). f r) (rows df)) df"

text \<open>\<open>Series.diff()\<close>: the first difference, undefined for the first period.\<close>

definition diff :: "fl list \<Rightarrow> fl list" where
  "diff xs = (case xs of [] \<Rightarrow> [] | x # rest \<Rightarrow> NaN # map2 (\<lambda>prev cur. fsub cur prev) xs rest)"

text \<open>\<open>calculate_nwc\<close> works on a copy: the balance sheet it is given stays as it was.\<close>

definition calculate_nwc :: "frame \<Rightarrow> py_error + frame" where
  "calculate_nwc balance_sheet =
     (if ''Current Assets'' \<in> set (columns balance_sheet)
         \<and> ''Cash Cash Equivalents And Short Term Investments'' \<in> set (columns balance_sheet)
         \<and> ''Current Liabilities'' \<in> set (columns balance_sheet)
         \<and> ''Current Debt And Capital Lease Obligation'' \<in> set (columns balance_sheet)
      then
        let df = balance_sheet;
            df = assign ''Adj Current Assets''
                   (\<lambda>r. fsub (r ''Current Assets'')
                              (r ''Cash Cash Equivalents And Short Term Investments'')) df;
            df = assign ''Adj Current Liabilities''
                   (\<lambda>r. fsub (r ''Current Liabilities'')
                              (r ''Current Debt And Capital Lease Obligation'')) df;
            df = assign ''NWC''
                   (\<lambda>r. fsub (r ''Adj Current Assets'') (r ''Adj Current Liabilities'')) df;
            df = set_col ''Change in NWC'' (diff (col_values df ''NWC'')) df
        in Inr df
      else Inl KeyError)"

text \<open>The value of a column at a period end-date; \<open>NaN\<close> when the frame has no such period.\<close>

definition cell_at :: "frame \<Rightarrow> date \<Rightarrow> string \<Rightarrow> fl" where
  "cell_at df d c = (case map_of (rows df) d of None \<Rightarrow> NaN | Some r \<Rightarrow> r c)"

text \<open>
  \<open>calculate_reinvestment\<close> has no copy: its first statement overwrites the
  \<open>Capital Expenditure\<close> column of the frame it was given. The first component of the
  result is that frame after the call, the second the returned frame or the exception.
  The merge is a left join on the period end-date; the tax rate and EBIT are read from
  the income statement at the dates of the merged frame.
\<close>

definition merge_left :: "frame \<Rightarrow> frame \<Rightarrow> frame" where
  "merge_left cash_flows_df nwc_df =
     \<lparr>columns = [''Capital Expenditure'', ''Depreciation And Amortization'', ''NWC'',
                 ''Change in NWC''],
      rows = map (\<lambda>(d, r).
                (d, (\<lambda>c. NaN)
                     (''Capital Expenditure'' := r ''Capital Expenditure'',
                      ''Depreciation And Amortization'' := r ''Depreciation And Amortization'',
                      ''NWC'' := cell_at nwc_df d ''NWC'',
                      ''Change in NWC'' := cell_at nwc_df d ''Change in NWC'')))
              (rows cash_flows_df)\<rparr>"

definition calculate_reinvestment ::
  "frame \<Rightarrow> frame \<Rightarrow> frame \<Rightarrow> string \<Rightarrow> frame \<times> (py_error + frame)" where
  "calculate_reinvestment cash_flows_df nwc_df income_df tax_rate_col =
     (if ''Capital Expenditure'' \<in> set (columns cash_flows_df)
      then
        let cash_flows_df = assign ''Capital Expenditure''
                              (\<lambda>r. fneg (r ''Capital Expenditure'')) cash_flows_df
        in (cash_flows_df,
            if ''Depreciation And Amortization'' \<in> set (columns cash_flows_df)
               \<and> ''NWC'' \<in> set (columns nwc_df) \<and> ''Change in NWC'' \<in> set (columns nwc_df)
            then
              let merged = merge_left cash_flows_df nwc_df;
                  merged = assign ''Reinvestment''
                             (\<lambda>r. fadd (fsub (r ''Capital Expenditure'')
                                              (r ''Depreciation And Amortization''))
                                        (r ''Change in NWC'')) merged
              in if tax_rate_col \<in> set (columns income_df)
                 then
                   let merged = set_col ''Tax Rate''
                                  (map (\<lambda>(d, r). cell_at income_df d tax_rate_col) (rows merged))
                                  merged
                   in if ''EBIT'' \<in> set (columns income_df)
                      then
                        let merged = set_col ''NOPAT''
                                       (map (\<lambda>(d, r). fmul (cell_at income_df d ''EBIT'')
                                                          (fsub (Fin 1) (r ''Tax Rate'')))
                                          (rows merged))
                                       merged;
                            merged = assign ''Reinvestment Rate''
                                       (\<lambda>r. fdiv (r ''Reinvestment'') (r ''NOPAT'')) merged
                        in Inr merged
                      else Inl KeyError
                 else Inl KeyError
            else Inl KeyError)
      else (cash_flows_df, Inl KeyError))"

section \<open>Specification-side definitions\<close>

text \<open>
  The valuation of one discount rate as the specification writes it (steps 4 to 6):
  discounted cash flows \<open>FCF\<^sub>t / (1 + wacc)\<^sup>t\<close>, Gordon-growth terminal value,
  equity bridge, and division by the shares outstanding.
\<close>

definition spec_share_price :: "real list \<Rightarrow> real \<Rightarrow> real \<Rightarrow> real \<Rightarrow> real \<Rightarrow> real \<Rightarrow> real" where
  "spec_share_price fcf terminal_growth total_debt total_cash shares_outstanding wacc =
     ((\<Sum>t < length fcf. fcf ! t / (1 + wacc) ^ (t + 1))
        + last fcf * (1 + terminal_growth) / (wacc - terminal_growth) / (1 + wacc) ^ length fcf
        - total_debt + total_cash) / shares_outstanding"

section \<open>Example data\<close>

text \<open>
  Two annual periods of statement data. The second period has a negative EBIT; capital
  expenditure is reported as a cash outflow, with negative sign.
\<close>

definition example_cash_flows :: frame where
  "example_cash_flows =
     \<lparr>columns = [''Capital Expenditure'', ''Depreciation And Amortization''],
      rows = [(2022, (\<lambda>c. NaN)(''Capital Expenditure'' := Fin (- 80),
                                 ''Depreciation And Amortization'' := Fin 15)),
              (2023, (\<lambda>c. NaN)(''Capital Expenditure'' := Fin (- 30),
                                 ''Depreciation And Amortization'' := Fin 10))]\<rparr>"

definition example_nwc :: frame where
  "example_nwc =
     \<lparr>columns = [''NWC'', ''Change in NWC''],
      rows = [(2022, (\<lambda>c. NaN)(''NWC'' := Fin 50, ''Change in NWC'' := NaN)),
              (2023, (\<lambda>c. NaN)(''NWC'' := Fin 80, ''Change in NWC'' := Fin 30))]\<rparr>"

definition example_income :: frame where
  "example_income =
     \<lparr>columns = [''EBIT'', ''Tax Rate For Calcs''],
      rows = [(2022, (\<lambda>c. NaN)(''EBIT'' := Fin 200, ''Tax Rate For Calcs'' := Fin 0.25)),
              (2023, (\<lambda>c. NaN)(''EBIT'' := Fin (- 100), ''Tax Rate For Calcs'' := Fin 0))]\<rparr>"

text \<open>The balance sheet from which \<open>calculate_nwc\<close> derives the working-capital figures of
  \<open>example_nwc\<close>.\<close>

definition example_balance_sheet :: frame where
  "example_balance_sheet =
     \<lparr>columns = [''Current Assets'', ''Cash Cash Equivalents And Short Term Investments'',
                 ''Current Liabilities'', ''Current Debt And Capital Lease Obligation''],
      rows = [(2022, (\<lambda>c. NaN)(''Current Assets'' := Fin 500,
                 ''Cash Cash Equivalents And Short Term Investments'' := Fin 200,
                 ''Current Liabilities'' := Fin 300,
                 ''Current Debt And Capital Lease Obligation'' := Fin 50)),
              (2023, (\<lambda>c. NaN)(''Current Assets'' := Fin 560,
                 ''Cash Cash Equivalents And Short Term Investments'' := Fin 210,
                 ''Current Liabilities'' := Fin 320,
                 ''Current Debt And Capital Lease Obligation'' := Fin 50))]\<rparr>"

text \<open>A projection of two years with its free cash flows.\<close>

definition example_projection :: frame where
  "example_projection =
     \<lparr>columns = [''FCF''],
      rows = [(2024, (\<lambda>c. NaN)(''FCF'' := Fin 252)),
              (2025, (\<lambda>c. NaN)(''FCF'' := Fin 277.2))]\<rparr>"

section \<open>Arithmetic on finite values\<close>

lemma fpow_Fin: "fpow (Fin x) n = Fin (x ^ n)"
  by (induction n) simp_all

lemma fadd_NaN_right: "fadd x NaN = NaN"
  by (cases x) simp_all

lemma fmul_NaN_right: "fmul x NaN = NaN"
  by (cases x) simp_all

lemma fdiv_zero_not_finite: "\<not> is_finite (fdiv x (Fin 0))"
  by (cases x) simp_all

lemma pd_sum_Fin: "pd_sum (map (\<lambda>t. Fin (h t)) ts) = Fin (sum_list (map h ts))"
  unfolding pd_sum_def by (induction ts) simp_all

lemma pd_sum_skips_NaN:
  "list_all (\<lambda>v. v \<noteq> PInf \<and> v \<noteq> NInf) vs \<Longrightarrow> pd_sum vs = Fin (sum_list (map real_of vs))"
proof (induction vs)
  case Nil
  then show ?case by (simp add: pd_sum_def)
next
  case (Cons v vs)
  then show ?case by (cases v) (simp_all add: pd_sum_def real_of_def)
qed

section \<open>Frames\<close>

lemma length_set_col:
  "length vs = length (rows df) \<Longrightarrow> length (rows (set_col c vs df)) = length (rows df)"
  by (simp add: set_col_def)

lemma col_values_set_col:
  "length vs = length (rows df) \<Longrightarrow>
   col_values (set_col c vs df) c' = (if c' = c then vs else col_values df c')"
  by (auto simp: set_col_def col_values_def list_eq_iff_nth_eq split: prod.splits)

lemma length_col_values: "length (col_values df c) = length (rows df)"
  by (simp add: col_values_def)

lemma map2_map_same: "map2 g xs (map h xs) = map (\<lambda>x. g x (h x)) xs"
  by (induction xs) simp_all

lemma rows_assign: "rows (assign c f df) = map (\<lambda>(d, r). (d, r(c := f r))) (rows df)"
proof -
  have "rows (assign c f df)
          = map2 (\<lambda>(d, r) v. (d, r(c := v))) (rows df) (map (\<lambda>(d, r). f r) (rows df))"
    by (simp add: assign_def set_col_def)
  also have "\<dots> = map (\<lambda>x. (\<lambda>(d, r) v. (d, r(c := v))) x ((\<lambda>(d, r). f r) x)) (rows df)"
    by (rule map2_map_same)
  also have "\<dots> = map (\<lambda>(d, r). (d, r(c := f r))) (rows df)"
    by (rule map_cong) auto
  finally show ?thesis .
qed

section \<open>Terminal value\<close>

lemma calculate_terminal_value_Fin:
  assumes "w \<noteq> g" and "w \<noteq> - 1"
  shows "calculate_terminal_value (Fin f) (Fin w) (Fin g) n
     = (Fin (f * (1 + g) / (w - g)), Fin (f * (1 + g) / (w - g) / (1 + w) ^ n))"
  using assms by (simp add: calculate_terminal_value_def fsub_def fpow_Fin Let_def add_eq_0_iff)

text \<open>
  Claim C1, as the code has it. \<open>calculate_terminal_value\<close> has no guard on
  \<open>wacc \<le> g\<close>: for all finite inputs with \<open>wacc \<noteq> g\<close> and \<open>wacc \<noteq> -1\<close>, so also for
  \<open>wacc < g\<close>, it returns \<open>TV = finalFCF * (1 + g) / (wacc - g)\<close> and
  \<open>PV(TV) = TV / (1 + wacc)\<^sup>N\<close>.
\<close>

theorem terminal_value_without_guard:
  assumes "wacc \<noteq> g" and "wacc \<noteq> - 1"
  shows "calculate_terminal_value (Fin final_fcf) (Fin wacc) (Fin g) n
     = (Fin (final_fcf * (1 + g) / (wacc - g)),
        Fin (final_fcf * (1 + g) / (wacc - g) / (1 + wacc) ^ n))"
  using assms by (rule calculate_terminal_value_Fin)

text \<open>The values of the specification: \<open>wacc = 0.09\<close>, \<open>g = 0.03\<close>, \<open>finalFCF = 100\<close> give
  \<open>TV = 100 * 1.03 / 0.06 = 5150 / 3\<close>.\<close>

theorem terminal_value_without_guard_witness:
  "(0.09::real) \<noteq> 0.03 \<and> (0.09::real) \<noteq> - 1 \<and>
   calculate_terminal_value (Fin 100) (Fin 0.09) (Fin 0.03) 10
     = (Fin (5150 / 3), Fin (5150 / 3 / 1.09 ^ 10))"
  using terminal_value_without_guard [of "0.09" "0.03" 100 10] by simp

text \<open>Claim C1 as stated fails: with \<open>wacc = 0.02 < g = 0.03\<close> a (negative) terminal value
  is returned.\<close>

theorem terminal_value_below_growth_returns:
  "(0.02::real) \<le> 0.03 \<and>
   calculate_terminal_value (Fin 100) (Fin 0.02) (Fin 0.03) 5
     = (Fin (- 10300), Fin (- 10300 / 1.02 ^ 5))"
  by (simp add: calculate_terminal_value_def fsub_def fpow_Fin)

section \<open>Credit spread and cost of debt\<close>

lemma get_credit_spread_unmatched:
  "list_all (\<lambda>entry. lower (strip (Rating entry)) \<noteq> lower (strip rating)) table \<Longrightarrow>
   get_credit_spread rating table = (NaN, [''Warning: No spread found for rating '' @ rating])"
  by (induction table) simp_all

lemma wacc_estimates_NaN:
  "wacc_estimates w_E w_D rf emrp t b bl bu NaN
     = \<lparr>wacc_lower_ci = NaN, wacc_estimate = NaN, wacc_upper_ci = NaN\<rparr>"
  by (simp add: wacc_estimates_def Let_def fadd_NaN_right fmul_NaN_right)

lemma get_credit_spread_matched:
  "list_ex (\<lambda>entry. lower (strip (Rating entry)) = lower (strip rating)) table \<Longrightarrow>
   is_finite (fst (get_credit_spread rating table)) \<and> snd (get_credit_spread rating table) = []"
  by (induction table) auto

lemma zzz_unmatched:
  "list_all (\<lambda>entry. lower (strip (Rating entry)) \<noteq> lower (strip ''ZZZ'')) credit_spreads"
  by (simp add: credit_spreads_def lower_def strip_def is_space_def lower_char_def)

text \<open>
  Claim C2, as the code has it. For a rating without a case-insensitive, trimmed match in
  the table, \<open>get_credit_spread\<close> writes a warning and returns \<open>NaN\<close> as its "not found"
  signal, never a placeholder spread; the cost of debt \<open>rf + spread\<close> does not fail in
  that case: it evaluates to \<open>NaN\<close>.
\<close>

theorem unmatched_rating_gives_NaN:
  assumes "list_all (\<lambda>entry. lower (strip (Rating entry)) \<noteq> lower (strip rating)) table"
  shows "get_credit_spread rating table
           = (NaN, [''Warning: No spread found for rating '' @ rating])
         \<and> cost_of_debt rf rating table = NaN"
proof -
  have g: "get_credit_spread rating table
             = (NaN, [''Warning: No spread found for rating '' @ rating])"
    by (rule get_credit_spread_unmatched [OF assms])
  then have "cost_of_debt rf rating table = NaN"
    by (simp add: cost_of_debt_def fadd_NaN_right)
  with g show ?thesis by simp
qed

theorem unmatched_rating_gives_NaN_witness:
  "get_credit_spread ''ZZZ'' credit_spreads = (NaN, [''Warning: No spread found for rating ZZZ''])
   \<and> cost_of_debt (Fin 0.045) ''ZZZ'' credit_spreads = NaN"
  using unmatched_rating_gives_NaN [OF zzz_unmatched, of "Fin 0.045"] by simp

text \<open>Claim C2 as stated fails: the table has no rating \<open>BBB\<close> (its entry is
  \<open>Baa2/BBB\<close>), and with a risk-free rate of 4.5 percent the cost of debt for \<open>BBB\<close> is
  computed, with the value \<open>NaN\<close>.\<close>

theorem unmatched_rating_cost_of_debt_computed:
  "get_credit_spread ''BBB'' credit_spreads = (NaN, [''Warning: No spread found for rating BBB''])
   \<and> cost_of_debt (Fin 0.045) ''BBB'' credit_spreads = NaN"
  by (simp add: cost_of_debt_def credit_spreads_def lower_def strip_def is_space_def
      lower_char_def)

section \<open>Revenue projection\<close>

lemma length_cumprod_from: "length (cumprod_from a xs) = length xs"
  by (induction xs arbitrary: a) simp_all

lemma cumprod_from_nth:
  "t < length xs \<Longrightarrow> cumprod_from (Fin a) (map Fin xs) ! t = Fin (a * prod_list (take (Suc t) xs))"
proof (induction xs arbitrary: a t)
  case Nil
  then show ?case by simp
next
  case (Cons x xs)
  show ?case
  proof (cases t)
    case 0
    then show ?thesis by simp
  next
    case (Suc k)
    with Cons.prems have "k < length xs" by simp
    from Cons.IH [OF this, of "a * x"] Suc show ?thesis by (simp add: mult.assoc)
  qed
qed

lemma prod_list_take_Suc:
  "t < length xs \<Longrightarrow> prod_list (take (Suc t) xs) = (\<Prod>i\<le>t. xs ! i :: real)"
proof (induction t)
  case 0
  then show ?case by (cases xs) simp_all
next
  case (Suc t)
  then have "prod_list (take (Suc (Suc t)) xs) = prod_list (take (Suc t) xs) * xs ! Suc t"
    by (simp add: take_Suc_conv_app_nth)
  with Suc show ?case by simp
qed

lemma assumption_frame_ok:
  assumes "length gs = length ds" "length ms = length ds" "length rs = length ds"
  shows "\<exists>p. assumption_frame ds gs ms rs = Inr p \<and> length (rows p) = length ds
           \<and> col_values p ''Revenue Growth'' = gs"
proof -
  have "maybe_repeat vs (length vs) = vs" for vs
    by (auto simp: maybe_repeat_def split: list.splits)
  then have same: "maybe_repeat vs (length ds) = vs" if "length vs = length ds" for vs
    using that by metis
  show ?thesis
    using assms
    by (auto simp: assumption_frame_def same Let_def col_values_def list_eq_iff_nth_eq
        split: prod.splits)
qed

text \<open>
  Claim C3. For every finite LTM revenue and growth vector \<open>g\<^sub>1 .. g\<^sub>N\<close> (one entry per
  projection date, as for the margins and reinvestment rates), \<open>project_financials\<close>
  returns a projection whose revenue of year \<open>t\<close> is the LTM revenue times the cumulative
  product of \<open>(1 + g\<^sub>i)\<close> up to that year.
\<close>

theorem projected_revenue_compounds:
  assumes "length gs = length dates" "length ms = length dates" "length rs = length dates"
  shows "\<exists>p. project_financials (Fin ltm) (map Fin gs) ms rs tax dates = Inr p
           \<and> length (col_values p ''Revenue'') = length dates
           \<and> (\<forall>t < length dates. col_values p ''Revenue'' ! t = Fin (ltm * (\<Prod>i\<le>t. 1 + gs ! i)))"
proof -
  from assumption_frame_ok [of "map Fin gs" dates ms rs] assms
  obtain p0 where p0: "assumption_frame dates (map Fin gs) ms rs = Inr p0"
    and len0: "length (rows p0) = length dates"
    and g0: "col_values p0 ''Revenue Growth'' = map Fin gs"
    by auto
  define rev where "rev = map (fmul (Fin ltm)) (cumprod (map (fadd (Fin 1)) (map Fin gs)))"
  have lrev: "length rev = length dates"
    using assms by (simp add: rev_def cumprod_def length_cumprod_from)
  have m1: "map (fadd (Fin 1)) (map Fin gs) = map Fin (map ((+) 1) gs)"
    by simp
  have nth_rev: "rev ! t = Fin (ltm * (\<Prod>i\<le>t. 1 + gs ! i))" if "t < length dates" for t
  proof -
    from that assms have t: "t < length (map ((+) 1) gs)" by simp
    have "cumprod (map (fadd (Fin 1)) (map Fin gs)) ! t
            = Fin (1 * prod_list (take (Suc t) (map ((+) 1) gs)))"
      unfolding cumprod_def m1 by (rule cumprod_from_nth [OF t])
    moreover have "t < length (cumprod (map (fadd (Fin 1)) (map Fin gs)))"
      using t by (simp add: cumprod_def length_cumprod_from)
    ultimately have "rev ! t = Fin (ltm * prod_list (take (Suc t) (map ((+) 1) gs)))"
      unfolding rev_def by (simp del: map_map)
    also have "prod_list (take (Suc t) (map ((+) 1) gs)) = (\<Prod>i\<le>t. map ((+) 1) gs ! i)"
      by (rule prod_list_take_Suc [OF t])
    also have "\<dots> = (\<Prod>i\<le>t. 1 + gs ! i)"
      using that assms by (intro prod.cong) auto
    finally show ?thesis .
  qed
  obtain p where p: "project_financials (Fin ltm) (map Fin gs) ms rs tax dates = Inr p"
    and pc: "col_values p ''Revenue'' = rev"
    using p0 len0 g0 lrev
    by (simp add: project_financials_def Let_def col_values_set_col length_set_col
        length_col_values rev_def)
  show ?thesis using p pc lrev nth_rev by auto
qed

text \<open>The values of the specification: LTM revenue 100 and growth \<open>[0.10, 0.10]\<close> give the
  revenues 110 and 121.\<close>

theorem projected_revenue_compounds_witness:
  "\<exists>p. project_financials (Fin 100) (map Fin [0.10, 0.10]) [Fin 0.4, Fin 0.4] [Fin 0.3, Fin 0.3]
          (Fin 0.25) [1, 2] = Inr p
       \<and> col_values p ''Revenue'' ! 0 = Fin 110 \<and> col_values p ''Revenue'' ! 1 = Fin 121"
  using projected_revenue_compounds
    [of "[0.10, 0.10]" "[1, 2]" "[Fin 0.4, Fin 0.4]" "[Fin 0.3, Fin 0.3]" 100 "Fin 0.25"]
  by (auto simp: atMost_Suc numeral_2_eq_2 power2_eq_square)

section \<open>Sensitivity to the discount rate\<close>

lemma length_discounted: "length (discounted fcf w) = length fcf"
  by (simp add: discounted_def del: upt_Suc)

lemma discounted_Fin:
  assumes "w \<noteq> - 1"
  shows "discounted (map Fin fs) (Fin w)
           = map (\<lambda>t. Fin (fs ! t / (1 + w) ^ (t + 1))) [0 ..< length fs]"
proof (rule nth_equalityI)
  show "length (discounted (map Fin fs) (Fin w))
          = length (map (\<lambda>t. Fin (fs ! t / (1 + w) ^ (t + 1))) [0 ..< length fs])"
    by (simp add: length_discounted)
next
  fix i assume "i < length (discounted (map Fin fs) (Fin w))"
  then have i: "i < length fs" by (simp add: length_discounted)
  have nz: "(1 + w) ^ (i + 1) \<noteq> 0" using assms by (simp add: add_eq_0_iff)
  have "discounted (map Fin fs) (Fin w) ! i = fdiv (Fin (fs ! i)) (fpow (Fin (1 + w)) (i + 1))"
    using i by (simp add: discounted_def del: upt_Suc fpow.simps)
  also have "\<dots> = Fin (fs ! i / (1 + w) ^ (i + 1))"
    using nz by (simp only: fpow_Fin fdiv.simps if_False)
  finally show "discounted (map Fin fs) (Fin w) ! i
                  = map (\<lambda>t. Fin (fs ! t / (1 + w) ^ (t + 1))) [0 ..< length fs] ! i"
    using i by simp
qed

lemma sensitivity_price_Fin:
  assumes fcf: "getitem projection ''FCF'' = Inr (map Fin fs)"
    and w: "w \<noteq> g" "w \<noteq> - 1" and sh: "shares \<noteq> 0"
  shows "sensitivity_price projection (Fin (last fs)) (Fin g) (Fin debt) (Fin cash) (Fin shares) (Fin w)
           = Inr (Fin (spec_share_price fs g debt cash shares w))"
proof -
  from fcf have cv: "col_values projection ''FCF'' = map Fin fs"
    by (simp add: getitem_def split: if_splits)
  then have len: "length (rows projection) = length fs"
    by (metis length_col_values length_map)
  define cur where "cur = set_col ''Discounted FCF'' (discounted (map Fin fs) (Fin w)) projection"
  have lcur: "length (rows cur) = length fs"
    by (simp add: cur_def length_set_col length_discounted len)
  have dcur: "col_values cur ''Discounted FCF'' = discounted (map Fin fs) (Fin w)"
    by (simp add: cur_def col_values_set_col length_discounted len)
  have s: "pd_sum (col_values cur ''Discounted FCF'')
             = Fin (\<Sum>t < length fs. fs ! t / (1 + w) ^ (t + 1))"
    by (simp only: dcur discounted_Fin [OF w(2)] pd_sum_Fin)
       (simp add: interv_sum_list_conv_sum_set_nat atLeast0LessThan)
  show ?thesis
    using sh
    by (simp add: sensitivity_price_def fcf cur_def [symmetric] lcur
        calculate_terminal_value_Fin [OF w] s
        calculate_share_price_def spec_share_price_def fsub_def Let_def)
qed

lemma discounted_sum_strict_mono:
  assumes "- 1 < w1" "w1 < w2" "fs \<noteq> []" "\<forall>f \<in> set fs. 0 < f"
  shows "(\<Sum>t < length fs. fs ! t / (1 + w2) ^ (t + 1))
           < (\<Sum>t < length fs. fs ! t / (1 + w1) ^ (t + 1 :: nat) :: real)"
proof (rule sum_strict_mono)
  show "finite {..<length fs}" by simp
  show "{..<length fs} \<noteq> {}" using assms(3) by auto
  fix t assume "t \<in> {..<length fs}"
  then have f: "0 < fs ! t" using assms(4) by auto
  have "(1 + w1) ^ (t + 1) < (1 + w2) ^ (t + 1)"
    using assms(1,2) by (intro power_strict_mono) auto
  moreover have "0 < (1 + w1) ^ (t + 1)" using assms(1) by simp
  ultimately show "fs ! t / (1 + w2) ^ (t + 1) < fs ! t / (1 + w1) ^ (t + 1)"
    using f by (simp add: frac_less2)
qed

lemma terminal_value_mono:
  assumes "- 1 < g" "g < w1" "w1 < w2" "0 < (c::real)"
  shows "c * (1 + g) / (w2 - g) / (1 + w2) ^ n \<le> c * (1 + g) / (w1 - g) / (1 + w1) ^ n"
proof -
  have a: "0 < c * (1 + g)" using assms by simp
  have "(1 + w1) ^ n \<le> (1 + w2) ^ n" using assms by (intro power_mono) auto
  moreover have "0 < (1 + w1) ^ n" using assms by simp
  ultimately have "(w1 - g) * (1 + w1) ^ n \<le> (w2 - g) * (1 + w2) ^ n"
    using assms by (intro mult_mono) auto
  moreover have "0 < (w1 - g) * (1 + w1) ^ n" using assms by simp
  ultimately have "c * (1 + g) / ((w2 - g) * (1 + w2) ^ n) \<le> c * (1 + g) / ((w1 - g) * (1 + w1) ^ n)"
    using a by (intro divide_left_mono) auto
  then show ?thesis by (simp add: divide_divide_eq_left)
qed

text \<open>
  Claim C4, as the code has it. For discount rates \<open>wacc_lower < wacc < wacc_upper\<close>, all
  above a terminal growth rate \<open>g > -1\<close>, a non-empty projection whose yearly FCF are all
  positive, and a positive number of shares outstanding, the sensitivity loop values the
  same FCF stream at each rate (each price is the valuation of that one stream at that
  rate) and the three share prices are strictly decreasing.
\<close>

theorem sensitivity_prices_decrease:
  assumes fcf: "getitem projection ''FCF'' = Inr (map Fin fs)"
    and ne: "fs \<noteq> []" and pos: "\<forall>f \<in> set fs. 0 < f"
    and g: "- 1 < g" "g < wl" and ws: "wl < wp" "wp < wu" and sh: "0 < shares"
  shows "sensitivity projection (Fin (last fs)) (Fin wl) (Fin wp) (Fin wu) (Fin g) (Fin debt)
             (Fin cash) (Fin shares)
           = Inr [Fin (spec_share_price fs g debt cash shares wl),
                  Fin (spec_share_price fs g debt cash shares wp),
                  Fin (spec_share_price fs g debt cash shares wu)]
         \<and> spec_share_price fs g debt cash shares wu < spec_share_price fs g debt cash shares wp
         \<and> spec_share_price fs g debt cash shares wp < spec_share_price fs g debt cash shares wl"
proof -
  have lastpos: "0 < last fs" using ne pos by simp
  have mono: "spec_share_price fs g debt cash shares w2 < spec_share_price fs g debt cash shares w1"
    if "g < w1" "w1 < w2" for w1 w2
  proof -
    have w1: "- 1 < w1" using g(1) that(1) by simp
    have "(\<Sum>t < length fs. fs ! t / (1 + w2) ^ (t + 1))
            < (\<Sum>t < length fs. fs ! t / (1 + w1) ^ (t + 1))"
      by (rule discounted_sum_strict_mono [OF w1 that(2) ne pos])
    moreover have "last fs * (1 + g) / (w2 - g) / (1 + w2) ^ length fs
                     \<le> last fs * (1 + g) / (w1 - g) / (1 + w1) ^ length fs"
      by (rule terminal_value_mono [OF g(1) that lastpos])
    ultimately show ?thesis
      using sh unfolding spec_share_price_def by (intro divide_strict_right_mono) auto
  qed
  have p: "sensitivity_price projection (Fin (last fs)) (Fin g) (Fin debt) (Fin cash) (Fin shares)
             (Fin w) = Inr (Fin (spec_share_price fs g debt cash shares w))" if "g < w" for w
    using that g(1) sh by (intro sensitivity_price_Fin [OF fcf]) auto
  have "g < wp" "g < wu" using g ws by auto
  then show ?thesis
    using p [of wl] p [of wp] p [of wu] g(2) mono [of wl wp] mono [of wp wu] ws
    by (simp add: sensitivity_def)
qed

lemma example_projection_fcf:
  "getitem example_projection ''FCF'' = Inr (map Fin [252, 277.2])"
  by (simp add: getitem_def col_values_def example_projection_def)

theorem sensitivity_prices_decrease_witness:
  "sensitivity example_projection (Fin 277.2) (Fin 0.08) (Fin 0.10) (Fin 0.12) (Fin 0.03)
       (Fin 200) (Fin 50) (Fin 100)
     = Inr [Fin (spec_share_price [252, 277.2] 0.03 200 50 100 0.08),
            Fin (spec_share_price [252, 277.2] 0.03 200 50 100 0.10),
            Fin (spec_share_price [252, 277.2] 0.03 200 50 100 0.12)]
   \<and> spec_share_price [252, 277.2] 0.03 200 50 100 0.12
       < spec_share_price [252, 277.2] 0.03 200 50 100 0.10
   \<and> spec_share_price [252, 277.2] 0.03 200 50 100 0.10
       < spec_share_price [252, 277.2] 0.03 200 50 100 0.08"
  using sensitivity_prices_decrease [OF example_projection_fcf,
      of "0.03" "0.08" "0.10" "0.12" 100 200 50]
  by simp

text \<open>
  Claim C4 as stated fails. With no shares outstanding (the default when the provider
  reports none) all three prices are infinite; and with a terminal growth rate below
  \<open>-1\<close> the price rises and then stays level as the rate increases.
\<close>

theorem sensitivity_not_decreasing:
  "sensitivity example_projection (Fin 277.2) (Fin 0.08) (Fin 0.10) (Fin 0.12) (Fin 0.03)
       (Fin 200) (Fin 50) (Fin 0) = Inr [PInf, PInf, PInf]
   \<and> sensitivity \<lparr>columns = [''FCF''],
                   rows = [(2024, (\<lambda>c. NaN)(''FCF'' := Fin 1)),
                           (2025, (\<lambda>c. NaN)(''FCF'' := Fin 1))]\<rparr>
       (Fin 1) (Fin (- 2.9)) (Fin (- 2.5)) (Fin (- 2)) (Fin (- 3)) (Fin 0) (Fin 0) (Fin 1)
       = Inr [Fin (- (110 / 19)), Fin (- 2), Fin (- 2)]"
  by code_simp

section \<open>Reinvestment\<close>

lemma example_nwc_from_balance_sheet:
  "map_sum id (\<lambda>df. (col_values df ''NWC'', col_values df ''Change in NWC''))
     (calculate_nwc example_balance_sheet) = Inr ([Fin 50, Fin 80], [NaN, Fin 30])
   \<and> (col_values example_nwc ''NWC'', col_values example_nwc ''Change in NWC'')
       = ([Fin 50, Fin 80], [NaN, Fin 30])"
  by code_simp

text \<open>
  Claim C5, evaluated on the example data. \<open>calculate_reinvestment\<close> leaves the
  \<open>Capital Expenditure\<close> column of its argument negated (80 and 30 where the statement
  had -80 and -30), so a second call on the same data computes a different reinvestment
  (-10 where the first call gave 50); and \<open>discount_cash_flows\<close> adds the
  \<open>Discounted FCF\<close> column to the projection it was given.
\<close>

theorem calculate_reinvestment_overwrites_input:
  "col_values example_cash_flows ''Capital Expenditure'' = [Fin (- 80), Fin (- 30)]
   \<and> col_values (fst (calculate_reinvestment example_cash_flows example_nwc example_income
                        ''Tax Rate For Calcs'')) ''Capital Expenditure'' = [Fin 80, Fin 30]
   \<and> map_sum id (\<lambda>m. col_values m ''Reinvestment'')
        (snd (calculate_reinvestment example_cash_flows example_nwc example_income
                ''Tax Rate For Calcs'')) = Inr [NaN, Fin 50]
   \<and> map_sum id (\<lambda>m. col_values m ''Reinvestment'')
        (snd (calculate_reinvestment
                (fst (calculate_reinvestment example_cash_flows example_nwc example_income
                        ''Tax Rate For Calcs''))
                example_nwc example_income ''Tax Rate For Calcs'')) = Inr [NaN, Fin (- 10)]
   \<and> columns example_projection = [''FCF'']
   \<and> map_sum id columns (discount_cash_flows example_projection (Fin 0.1))
        = Inr [''FCF'', ''Discounted FCF'']"
  by code_simp

text \<open>
  Claim C7, as the code has it. In every period of the frame \<open>calculate_reinvestment\<close>
  returns, the reinvestment rate is the plain quotient \<open>Reinvestment / NOPAT\<close>: a finite
  number whenever reinvestment is finite and NOPAT is negative, and a non-finite value
  (an infinity or \<open>NaN\<close>), never zero, when NOPAT is zero.
\<close>

theorem reinvestment_rate_is_plain_quotient:
  assumes "calculate_reinvestment cash_flows_df nwc_df income_df tax_rate_col = (cf, Inr merged)"
    and "(d, r) \<in> set (rows merged)"
  shows "r ''Reinvestment Rate'' = fdiv (r ''Reinvestment'') (r ''NOPAT'')
       \<and> (\<forall>x n. r ''Reinvestment'' = Fin x \<and> r ''NOPAT'' = Fin n \<and> n < 0
              \<longrightarrow> r ''Reinvestment Rate'' = Fin (x / n))
       \<and> (r ''NOPAT'' = Fin 0 \<longrightarrow> \<not> is_finite (r ''Reinvestment Rate''))"
proof -
  from assms(1) obtain m where
    m: "merged = assign ''Reinvestment Rate'' (\<lambda>r. fdiv (r ''Reinvestment'') (r ''NOPAT'')) m"
    by (auto simp: calculate_reinvestment_def Let_def split: if_splits)
  from assms(2) obtain r0 where
    r: "r = r0(''Reinvestment Rate'' := fdiv (r0 ''Reinvestment'') (r0 ''NOPAT''))"
    unfolding m rows_assign by auto
  have q: "r ''Reinvestment Rate'' = fdiv (r ''Reinvestment'') (r ''NOPAT'')"
    by (simp add: r)
  moreover have "r ''Reinvestment Rate'' = Fin (x / n)"
    if "r ''Reinvestment'' = Fin x" "r ''NOPAT'' = Fin n" "n < 0" for x n
    using that q by simp
  moreover have "\<not> is_finite (r ''Reinvestment Rate'')" if "r ''NOPAT'' = Fin 0"
    using that q by (simp add: fdiv_zero_not_finite)
  ultimately show ?thesis by blast
qed

lemma example_reinvestment:
  "\<exists>cf merged. calculate_reinvestment example_cash_flows example_nwc example_income
      ''Tax Rate For Calcs'' = (cf, Inr merged)"
  by (simp add: calculate_reinvestment_def Let_def example_cash_flows_def example_nwc_def
      example_income_def assign_def set_col_def)

theorem reinvestment_rate_is_plain_quotient_witness:
  "case snd (calculate_reinvestment example_cash_flows example_nwc example_income
               ''Tax Rate For Calcs'') of
     Inl e \<Rightarrow> False
   | Inr merged \<Rightarrow>
       list_all (\<lambda>(d, r). r ''Reinvestment Rate'' = fdiv (r ''Reinvestment'') (r ''NOPAT''))
         (rows merged)
       \<and> map (\<lambda>(d, r). r ''NOPAT'') (rows merged) = [Fin 150, Fin (- 100)]
       \<and> map (\<lambda>(d, r). r ''Reinvestment Rate'') (rows merged) = [NaN, Fin (- (1 / 2))]"
proof -
  from example_reinvestment obtain cf merged where
    eq: "calculate_reinvestment example_cash_flows example_nwc example_income
           ''Tax Rate For Calcs'' = (cf, Inr merged)" by blast
  have "list_all (\<lambda>(d, r). r ''Reinvestment Rate'' = fdiv (r ''Reinvestment'') (r ''NOPAT''))
         (rows merged)"
    using reinvestment_rate_is_plain_quotient [OF eq] by (auto simp: list_all_iff)
  moreover have "map_sum id (\<lambda>m. (col_values m ''NOPAT'', col_values m ''Reinvestment Rate''))
     (snd (calculate_reinvestment example_cash_flows example_nwc example_income
             ''Tax Rate For Calcs''))
     = Inr ([Fin 150, Fin (- 100)], [NaN, Fin (- (1 / 2))])"
    by code_simp
  ultimately show ?thesis
    by (simp add: eq col_values_def)
qed

text \<open>Claim C7 as stated fails: in the second example period NOPAT is -100 and the rate is
  the finite number -1/2.\<close>

theorem reinvestment_rate_negative_nopat:
  "map_sum id (\<lambda>m. (col_values m ''Reinvestment'', col_values m ''NOPAT'',
                      col_values m ''Reinvestment Rate''))
     (snd (calculate_reinvestment example_cash_flows example_nwc example_income
             ''Tax Rate For Calcs''))
   = Inr ([NaN, Fin 50], [Fin 150, Fin (- 100)], [NaN, Fin (- (1 / 2))])"
  by code_simp

section \<open>WACC band\<close>



section \<open>Market-model fit\<close>

lemma excess_returns_three:
  assumes "p0 \<noteq> 0" "p1 \<noteq> 0"
  shows "excess_returns [(d0, p0), (d1, p1), (d2, p2)] (Fin rf)
           = [(d1, Fin (p1 / p0 - 1 - rf)), (d2, Fin (p2 / p1 - 1 - rf))]"
  using assms by (simp add: excess_returns_def pct_change_def dropna_def fsub_def)

lemma second_row_two_points:
  fixes x2 d :: real
  assumes "d \<noteq> 0"
  shows "\<exists>w. pinv_rows (Const_and_regressor [(d1, Fin (x2 + d)), (d2, Fin x2)])
           = [w, [1 / d, - (1 / d)]] \<and> length w = 2"
proof -
  have mean: "(x2 + d + x2) / 2 = x2 + d / 2"
    by (simp add: field_simps)
  have sxx: "(x2 + d - (x2 + d / 2))\<^sup>2 + (x2 - (x2 + d / 2))\<^sup>2 = d\<^sup>2 / 2"
    by (simp add: power2_eq_square field_simps)
  have w1: "(x2 + d - (x2 + d / 2)) / (d\<^sup>2 / 2) = 1 / d"
    using assms by (simp add: power2_eq_square field_simps)
  have w2: "(x2 - (x2 + d / 2)) / (d\<^sup>2 / 2) = - (1 / d)"
    using assms by (simp add: power2_eq_square field_simps)
  have "pinv_rows (Const_and_regressor [(d1, Fin (x2 + d)), (d2, Fin x2)])
      = (let xs = [x2 + d, x2]; n = 2; mean = (x2 + d + x2) / 2;
             sxx = (x2 + d - mean)\<^sup>2 + (x2 - mean)\<^sup>2
         in if sxx = 0
            then [map (\<lambda>x. 1 / (n * (1 + mean\<^sup>2))) xs, map (\<lambda>x. mean / (n * (1 + mean\<^sup>2))) xs]
            else [map (\<lambda>x. 1 / n - mean * ((x - mean) / sxx)) xs,
                  map (\<lambda>x. (x - mean) / sxx) xs])"
    unfolding pinv_rows_def regressor_def Let_def
    by (simp only: design.case list.map o_apply snd_conv real_of_def fl.case sum_list.Cons
        sum_list.Nil list.size add_0_right One_nat_def)
       (simp add: add.assoc)
  also have "\<dots> = [map (\<lambda>x. 1 / 2 - (x2 + d / 2) * ((x - (x2 + d / 2)) / (d\<^sup>2 / 2))) [x2 + d, x2],
                   [1 / d, - (1 / d)]]"
    unfolding Let_def mean sxx using assms by (simp only: list.map w1 w2) simp
  finally show ?thesis by simp
qed

lemma OLS_two_points:
  assumes "x1 \<noteq> x2"
  shows "\<exists>a. OLS_fit [(d1, Fin y1), (d2, Fin y2)] (add_constant [(d1, Fin x1), (d2, Fin x2)])
           = Inr [Fin a, Fin ((y2 - y1) / (x2 - x1))]"
proof -
  define d where "d = x1 - x2"
  have d: "d \<noteq> 0" and x1: "x1 = x2 + d" using assms by (simp_all add: d_def)
  have ac: "add_constant [(d1, Fin x1), (d2, Fin x2)]
              = Const_and_regressor [(d1, Fin x1), (d2, Fin x2)]"
    using assms by (auto simp: add_constant_def is_nonzero_constant_def)
  from second_row_two_points [OF d, of d1 x2 d2] obtain w where
    w: "pinv_rows (Const_and_regressor [(d1, Fin x1), (d2, Fin x2)]) = [w, [1 / d, - (1 / d)]]"
    and lw: "length w = 2"
    unfolding x1 by blast
  from lw obtain a b where ab: "w = [a, b]"
    by (metis (no_types, opaque_lifting) length_0_conv length_Suc_conv numeral_2_eq_2)
  have slope: "y1 / d + - (y2 / d) = (y2 - y1) / (x2 - x1)"
  proof -
    have "x2 - x1 = - d" by (simp add: d_def)
    then show ?thesis by (simp add: diff_divide_distrib)
  qed
  show ?thesis
    unfolding ac OLS_fit_def w ab
    using slope by (simp add: regressor_def dot_def)
qed

lemma calculate_beta_misaligned:
  assumes "map fst (excess_returns stock_data rf) \<noteq> map fst (excess_returns index_data rf)"
  shows "\<exists>e. calculate_beta stock_data index_data rf = Inl e"
  using assms
  by (simp add: calculate_beta_def OLS_fit_def Let_def regressor_def add_constant_def)

text \<open>
  Claim C8, as the code has it. \<open>calculate_beta\<close> has no sample-size check. For two
  price series on the same three dates (two aligned observations) with non-zero prices
  and two different benchmark returns, it fits the line through the two observations and
  returns its slope as beta, together with the coefficients and the two excess-return
  series. Alignment is left to the regression library: when the dates of the two
  excess-return series differ, its exception ends the call.
\<close>

theorem calculate_beta_two_observations:
  assumes "p0 \<noteq> 0" "p1 \<noteq> 0" "q0 \<noteq> 0" "q1 \<noteq> 0" and "q1 / q0 \<noteq> q2 / q1"
  shows "(\<exists>a. calculate_beta [(d0, p0), (d1, p1), (d2, p2)] [(d0, q0), (d1, q1), (d2, q2)] (Fin rf)
           = Inr (Fin (((p2 / p1 - 1 - rf) - (p1 / p0 - 1 - rf))
                        / ((q2 / q1 - 1 - rf) - (q1 / q0 - 1 - rf))),
                  [Fin a, Fin (((p2 / p1 - 1 - rf) - (p1 / p0 - 1 - rf))
                                / ((q2 / q1 - 1 - rf) - (q1 / q0 - 1 - rf)))],
                  [(d1, Fin (p1 / p0 - 1 - rf)), (d2, Fin (p2 / p1 - 1 - rf))],
                  [(d1, Fin (q1 / q0 - 1 - rf)), (d2, Fin (q2 / q1 - 1 - rf))]))
       \<and> (map fst (excess_returns stock_data rf') \<noteq> map fst (excess_returns index_data rf')
            \<longrightarrow> (\<exists>e. calculate_beta stock_data index_data rf' = Inl e))"
proof -
  have ne: "q1 / q0 - 1 - rf \<noteq> q2 / q1 - 1 - rf" using assms(5) by simp
  from OLS_two_points [OF ne, of d1 "p1 / p0 - 1 - rf" d2 "p2 / p1 - 1 - rf"]
  obtain a where a: "OLS_fit [(d1, Fin (p1 / p0 - 1 - rf)), (d2, Fin (p2 / p1 - 1 - rf))]
      (add_constant [(d1, Fin (q1 / q0 - 1 - rf)), (d2, Fin (q2 / q1 - 1 - rf))])
    = Inr [Fin a, Fin (((p2 / p1 - 1 - rf) - (p1 / p0 - 1 - rf))
                        / ((q2 / q1 - 1 - rf) - (q1 / q0 - 1 - rf)))]"
    by blast
  have "\<exists>a. calculate_beta [(d0, p0), (d1, p1), (d2, p2)] [(d0, q0), (d1, q1), (d2, q2)] (Fin rf)
           = Inr (Fin (((p2 / p1 - 1 - rf) - (p1 / p0 - 1 - rf))
                        / ((q2 / q1 - 1 - rf) - (q1 / q0 - 1 - rf))),
                  [Fin a, Fin (((p2 / p1 - 1 - rf) - (p1 / p0 - 1 - rf))
                                / ((q2 / q1 - 1 - rf) - (q1 / q0 - 1 - rf)))],
                  [(d1, Fin (p1 / p0 - 1 - rf)), (d2, Fin (p2 / p1 - 1 - rf))],
                  [(d1, Fin (q1 / q0 - 1 - rf)), (d2, Fin (q2 / q1 - 1 - rf))])"
    by (rule exI [of _ a])
       (simp add: calculate_beta_def Let_def excess_returns_three [OF assms(1,2)]
          excess_returns_three [OF assms(3,4)] a)
  then show ?thesis
    using calculate_beta_misaligned [of stock_data rf' index_data] by blast
qed

text \<open>Three monthly prices per series give two observations and the beta 2; a benchmark
  series whose last date differs ends in the library's exception.\<close>

theorem calculate_beta_two_observations_witness:
  "(\<exists>a. calculate_beta [(1, 100), (2, 110), (3, 132)] [(1, 100), (2, 105), (3, 115.5)] (Fin 0.01)
     = Inr (Fin 2, [Fin a, Fin 2], [(2, Fin 0.09), (3, Fin 0.19)], [(2, Fin 0.04), (3, Fin 0.09)]))
   \<and> (\<exists>e. calculate_beta [(1, 100), (2, 110), (3, 132)] [(1, 100), (2, 105), (4, 115.5)] (Fin 0)
          = Inl e)"
  using calculate_beta_two_observations [where ?p0.0 = 100 and ?p1.0 = 110 and ?p2.0 = 132
      and ?q0.0 = 100 and ?q1.0 = 105 and ?q2.0 = "115.5" and ?d0.0 = 1 and ?d1.0 = 2
      and ?d2.0 = 3 and rf = "0.01" and stock_data = "[(1, 100), (2, 110), (3, 132)]"
      and index_data = "[(1, 100), (2, 105), (4, 115.5)]" and rf' = "Fin 0"]
  by (simp add: excess_returns_def pct_change_def dropna_def fsub_def)

text \<open>Claim C8 as stated fails: two observations are fewer than three, and a beta of 2 is
  reported.\<close>

theorem calculate_beta_small_sample_fits:
  "calculate_beta [(1, 50), (2, 55), (3, 66)] [(1, 200), (2, 210), (3, 231)] (Fin 0)
     = Inr (Fin 2, [Fin 0, Fin 2], [(2, Fin (1 / 10)), (3, Fin (1 / 5))],
            [(2, Fin (1 / 20)), (3, Fin (1 / 10))])"
  by code_simp

section \<open>Assumption vectors\<close>

lemma pad_with_last_eq:
  "pad_with_last d n xs = xs @ replicate (n - length xs) (if xs = [] then d else last xs)"
proof (induction d n xs rule: pad_with_last.induct)
  case (1 dflt num_years pattern)
  show ?case
  proof (cases "length pattern < num_years")
    case True
    then obtain k where k: "num_years - length pattern = Suc k"
      by (metis Suc_diff_Suc)
    then have k': "num_years - Suc (length pattern) = k" by simp
    have "pad_with_last dflt num_years pattern
        = pad_with_last dflt num_years (pattern @ [if pattern \<noteq> [] then last pattern else dflt])"
      using True by (subst pad_with_last.simps) simp
    also have "\<dots> = (pattern @ [if pattern \<noteq> [] then last pattern else dflt])
        @ replicate k (if pattern \<noteq> [] then last pattern else dflt)"
      using 1 [OF True] k' by simp
    finally show ?thesis using k by (simp add: replicate_app_Cons_same)
  next
    case False
    then show ?thesis by (subst pad_with_last.simps) simp
  qed
qed

lemma split_comma_nonempty: "split_comma s \<noteq> []"
  by (induction s) (auto split: list.splits)

lemma those_length: "those xs = Some ys \<Longrightarrow> length ys = length xs"
  by (induction xs arbitrary: ys) (auto split: option.splits)

lemma parse_pattern_shape:
  assumes "parse_pattern float_of input n = Inr p"
  shows "length p \<le> n \<and> (0 < n \<longrightarrow> p \<noteq> [])"
proof -
  from assms obtain vs where vs: "those (map (\<lambda>x. float_of (strip x)) (split_comma input)) = Some vs"
    and p: "p = take n (map (\<lambda>v. fdiv v (Fin 100)) vs)"
    by (auto simp: parse_pattern_def split: option.splits)
  from those_length [OF vs] split_comma_nonempty [of input] have "vs \<noteq> []" by auto
  with p show ?thesis by auto
qed

text \<open>
  Claim C9, as the code has it. When the three inputs parse, each pattern is the supplied
  values (at most one per projected year) followed by copies of the last supplied value,
  exactly one value per projected year; no message is written: the padding is silent and
  the result carries nothing that tells a padded vector from a fully specified one.
\<close>

theorem short_pattern_padded_silently:
  assumes "parse_pattern float_of growth_input n = Inr g"
    and "parse_pattern float_of ebit_input n = Inr e"
    and "parse_pattern float_of reinv_input n = Inr r"
  shows "advanced_mode float_of growth_input ebit_input reinv_input n
           = \<lparr>growth_pattern_of = g @ replicate (n - length g) (last g),
              ebit_margin_pattern_of = e @ replicate (n - length e) (last e),
              reinv_rate_pattern_of = r @ replicate (n - length r) (last r),
              sidebar_errors = []\<rparr>
         \<and> length (g @ replicate (n - length g) (last g)) = n
         \<and> length (e @ replicate (n - length e) (last e)) = n
         \<and> length (r @ replicate (n - length r) (last r)) = n"
proof -
  have pad: "pad_with_last d n p = p @ replicate (n - length p) (last p) \<and>
             length (p @ replicate (n - length p) (last p)) = n"
    if "parse_pattern float_of input n = Inr p" for d input p
  proof -
    from parse_pattern_shape [OF that] have "length p \<le> n" "0 < n \<longrightarrow> p \<noteq> []" by auto
    then show ?thesis by (cases "p = []") (auto simp: pad_with_last_eq)
  qed
  show ?thesis
    using pad [OF assms(1)] pad [OF assms(2)] pad [OF assms(3)] assms
    by (simp add: advanced_mode_def)
qed

lemma parse_ex1: "parse_pattern float_of_digits ''20, 15'' 4 = Inr [Fin 0.2, Fin 0.15]"
  by (simp add: parse_pattern_def float_of_digits_def strip_def is_space_def is_digit_def)

theorem short_pattern_padded_silently_witness:
  "advanced_mode float_of_digits ''20, 15'' ''46'' ''40,30,20,10,5'' 4
     = \<lparr>growth_pattern_of = [Fin 0.2, Fin 0.15, Fin 0.15, Fin 0.15],
        ebit_margin_pattern_of = [Fin 0.46, Fin 0.46, Fin 0.46, Fin 0.46],
        reinv_rate_pattern_of = [Fin 0.4, Fin 0.3, Fin 0.2, Fin 0.1],
        sidebar_errors = []\<rparr>"
proof -
  have g: "parse_pattern float_of_digits ''20, 15'' 4 = Inr [Fin 0.2, Fin 0.15]"
    by (simp add: parse_pattern_def float_of_digits_def strip_def is_space_def is_digit_def)
  have e: "parse_pattern float_of_digits ''46'' 4 = Inr [Fin 0.46]"
    by (simp add: parse_pattern_def float_of_digits_def strip_def is_space_def is_digit_def)
  have r: "parse_pattern float_of_digits ''40,30,20,10,5'' 4 = Inr [Fin 0.4, Fin 0.3, Fin 0.2, Fin 0.1]"
    by (simp add: parse_pattern_def float_of_digits_def strip_def is_space_def is_digit_def)
  show ?thesis
    using short_pattern_padded_silently [OF g e r] by (simp add: numeral_eq_Suc)
qed

text \<open>Claim C9 as stated fails: one supplied value per pattern and three supplied values
  per pattern give the same result, messages included.\<close>

theorem padded_equals_fully_specified:
  "advanced_mode float_of_digits ''20'' ''46'' ''40'' 3
     = advanced_mode float_of_digits ''20,20,20'' ''46,46,46'' ''40,40,40'' 3"
  by code_simp

section \<open>Last twelve months\<close>

lemma sum_list_insort_key:
  "sum_list (map h (insort_key k x xs)) = h x + sum_list (map h xs :: real list)"
  by (induction xs) simp_all

lemma sum_list_sort_key: "sum_list (map h (sort_key k xs)) = sum_list (map h xs :: real list)"
  by (induction xs) (simp_all add: sum_list_insort_key)

lemma last_sorted_Max:
  fixes xs :: "nat list"
  assumes "sorted xs" "xs \<noteq> []"
  shows "last xs = Max (set xs)"
  using assms
proof (induction xs)
  case Nil
  then show ?case by simp
next
  case (Cons x xs)
  show ?case
  proof (cases "xs = []")
    case True
    then show ?thesis by simp
  next
    case False
    with Cons have ih: "last xs = Max (set xs)" by simp
    have "Max (set xs) \<in> set xs" using False by simp
    with Cons.prems have "x \<le> Max (set xs)" by auto
    with False ih show ?thesis by (simp add: max_absorb2)
  qed
qed

text \<open>
  Claim C10, as the code has it. When the quarterly income statement has a
  \<open>Total Revenue\<close> line and at least one but fewer than four periods, with every revenue
  entry a finite number or missing (\<open>NaN\<close>), \<open>get_ltm_data\<close> returns the sum of the
  revenues that exist (a missing entry counts as zero), the latest period end-date and
  the shares outstanding.
\<close>

theorem ltm_revenue_partial_year:
  assumes col: "''Total Revenue'' \<in> set (columns stmt)"
    and ne: "rows stmt \<noteq> []" and few: "length (rows stmt) < 4"
    and fin: "list_all (\<lambda>(d, r). r ''Total Revenue'' \<noteq> PInf \<and> r ''Total Revenue'' \<noteq> NInf) (rows stmt)"
  shows "get_ltm_data stmt info
           = Some (Fin (\<Sum>(d, r) \<leftarrow> rows stmt. real_of (r ''Total Revenue'')),
                   Max (fst ` set (rows stmt)),
                   info_get info ''sharesOutstanding'')"
proof -
  define srt where "srt = sort_key fst (rows stmt)"
  have ltm: "iloc_last4 (sort_index stmt) = stmt\<lparr>rows := srt\<rparr>"
    using few by (simp add: iloc_last4_def sort_index_def srt_def)
  have sne: "srt \<noteq> []" using ne by (metis srt_def length_sort length_0_conv)
  have "list_all (\<lambda>(d, r). r ''Total Revenue'' \<noteq> PInf \<and> r ''Total Revenue'' \<noteq> NInf) srt"
    using fin by (simp add: list_all_iff srt_def)
  then have "list_all (\<lambda>v. v \<noteq> PInf \<and> v \<noteq> NInf) (map (\<lambda>(d, r). r ''Total Revenue'') srt)"
    by (simp add: list_all_iff case_prod_unfold)
  from pd_sum_skips_NaN [OF this]
  have "pd_sum (map (\<lambda>(d, r). r ''Total Revenue'') srt)
          = Fin (sum_list (map (\<lambda>(d, r). real_of (r ''Total Revenue'')) srt))"
    by (simp add: comp_def case_prod_unfold)
  then have s: "pd_sum (map (\<lambda>(d, r). r ''Total Revenue'') srt)
          = Fin (\<Sum>(d, r) \<leftarrow> rows stmt. real_of (r ''Total Revenue''))"
    by (simp add: srt_def sum_list_sort_key)
  have "last (map fst srt) = Max (set (map fst srt))"
    using sne by (intro last_sorted_Max) (simp_all add: srt_def)
  then have l: "last (map fst srt) = Max (fst ` set (rows stmt))"
    by (simp add: srt_def)
  show ?thesis
    using col sne s l
    by (simp add: get_ltm_data_def ltm getitem_def col_values_def iloc_last_def Let_def)
qed

theorem ltm_revenue_partial_year_witness:
  "get_ltm_data
     \<lparr>columns = [''Total Revenue''],
      rows = [(3, (\<lambda>c. NaN)(''Total Revenue'' := Fin 30)),
              (1, (\<lambda>c. NaN)(''Total Revenue'' := Fin 10)),
              (2, (\<lambda>c. NaN))]\<rparr>
     [''sharesOutstanding'' \<mapsto> Fin 7]
   = Some (Fin 40, 3, Fin 7)"
  using ltm_revenue_partial_year [of "\<lparr>columns = [''Total Revenue''],
      rows = [(3, (\<lambda>c. NaN)(''Total Revenue'' := Fin 30)),
              (1, (\<lambda>c. NaN)(''Total Revenue'' := Fin 10)),
              (2, (\<lambda>c. NaN))]\<rparr>" "[''sharesOutstanding'' \<mapsto> Fin 7]"]
  by (simp add: real_of_def info_get_def)

text \<open>Claim C10 as stated fails: a statement with no periods is one with fewer than four,
  and for it the function returns its failure value.\<close>

theorem ltm_no_quarters_fails:
  "length (rows \<lparr>columns = [], rows = []\<rparr>) < 4
   \<and> get_ltm_data \<lparr>columns = [], rows = []\<rparr> Map.empty = None"
  by (simp add: get_ltm_data_def iloc_last4_def sort_index_def getitem_def Let_def)

end
